theory Spec2Isabelle
  imports Complex_Main
begin

section \<open>JavaScript values\<close>

text \<open>
  A JavaScript number is a finite value, one of the two infinities, or NaN. Finite
  doubles are modelled as reals, and the sign of zero is not represented. Sums,
  products and the functions of \<open>Math\<close> are exact here; the one subtraction whose result the
  source compares with a constant, in \<open>roundDistance\<close>, is rounded to the nearest double
  as IEEE 754 rounds it (\<open>js_fl\<close> below).
\<close>

datatype jsnum = Fin real | PInf | NInf | NaN

text \<open>
  A field of a parsed JSON body is absent (\<open>undefined\<close>), \<open>null\<close>, a boolean, a number,
  or a string, array or object. The server reads the last three only through their
  truthiness, through \<open>typeof\<close> and through the numeric coercion of \<open>-\<close>, \<open>*\<close> and \<open>>\<close>,
  so \<open>JOther t n\<close> stands for such a value with truthiness \<open>t\<close> and ToNumber value \<open>n\<close>.
\<close>

datatype jsval = JUndefined | JNull | JBool bool | JNum jsnum | JOther bool jsnum

fun to_number :: "jsval \<Rightarrow> jsnum" where
  "to_number JUndefined = NaN"
| "to_number JNull = Fin 0"
| "to_number (JBool b) = (if b then Fin 1 else Fin 0)"
| "to_number (JNum n) = n"
| "to_number (JOther t n) = n"

fun truthy :: "jsval \<Rightarrow> bool" where
  "truthy JUndefined = False"
| "truthy JNull = False"
| "truthy (JBool b) = b"
| "truthy (JNum n) = (n \<noteq> Fin 0 \<and> n \<noteq> NaN)"
| "truthy (JOther t n) = t"

subsection \<open>Arithmetic of numbers\<close>

fun js_neg :: "jsnum \<Rightarrow> jsnum" where
  "js_neg (Fin a) = Fin (- a)"
| "js_neg PInf = NInf"
| "js_neg NInf = PInf"
| "js_neg NaN = NaN"

fun js_add :: "jsnum \<Rightarrow> jsnum \<Rightarrow> jsnum" where
  "js_add NaN y = NaN"
| "js_add x NaN = NaN"
| "js_add (Fin a) (Fin b) = Fin (a + b)"
| "js_add PInf NInf = NaN"
| "js_add NInf PInf = NaN"
| "js_add PInf y = PInf"
| "js_add NInf y = NInf"
| "js_add (Fin a) y = y"

definition js_sub :: "jsnum \<Rightarrow> jsnum \<Rightarrow> jsnum" where
  "js_sub x y = js_add x (js_neg y)"

fun js_mul :: "jsnum \<Rightarrow> jsnum \<Rightarrow> jsnum" where
  "js_mul NaN y = NaN"
| "js_mul x NaN = NaN"
| "js_mul (Fin a) (Fin b) = Fin (a * b)"
| "js_mul (Fin a) y = (if a = 0 then NaN else if 0 < a then y else js_neg y)"
| "js_mul x (Fin b) = (if b = 0 then NaN else if 0 < b then x else js_neg x)"
| "js_mul x y = (if x = y then PInf else NInf)"

text \<open>Every division of the source is by a non-zero literal; a zero divisor is read as +0.\<close>

fun js_div :: "jsnum \<Rightarrow> jsnum \<Rightarrow> jsnum" where
  "js_div NaN y = NaN"
| "js_div x NaN = NaN"
| "js_div (Fin a) (Fin b) =
     (if b \<noteq> 0 then Fin (a / b) else if a = 0 then NaN else if 0 < a then PInf else NInf)"
| "js_div (Fin a) y = Fin 0"
| "js_div x (Fin b) = (if 0 \<le> b then x else js_neg x)"
| "js_div x y = NaN"

fun js_le :: "jsnum \<Rightarrow> jsnum \<Rightarrow> bool" where
  "js_le NaN y = False"
| "js_le x NaN = False"
| "js_le (Fin a) (Fin b) = (a \<le> b)"
| "js_le NInf y = True"
| "js_le x PInf = True"
| "js_le x y = False"

fun js_lt :: "jsnum \<Rightarrow> jsnum \<Rightarrow> bool" where
  "js_lt NaN y = False"
| "js_lt x NaN = False"
| "js_lt (Fin a) (Fin b) = (a < b)"
| "js_lt PInf y = False"
| "js_lt x NInf = False"
| "js_lt x y = True"

definition js_gt :: "jsnum \<Rightarrow> jsnum \<Rightarrow> bool" where
  "js_gt x y = js_lt y x"

subsection \<open>Rounding to the nearest double\<close>

text \<open>
  The nearest integer, a tie going to the even neighbour; the exponent of the last
  place of a binary64 number of the size of \<open>x\<close> (53 significant bits, exponents from
  -1022); and the binary64 value nearest to a real, which is an infinity when its
  size reaches \<open>2 ^ 1024\<close>.
\<close>

definition round_even :: "real \<Rightarrow> int" where
  "round_even x =
     (let f = \<lfloor>x\<rfloor>; d = x - of_int f
      in if d < 1 / 2 then f else if 1 / 2 < d then f + 1 else if even f then f else f + 1)"

definition ulp_exponent :: "real \<Rightarrow> int" where
  "ulp_exponent x = max \<lfloor>log 2 \<bar>x\<bar>\<rfloor> (- 1022) - 52"

definition fl :: "real \<Rightarrow> real" where
  "fl x =
     (if x = 0 then 0
      else of_int (round_even (x / 2 powr of_int (ulp_exponent x))) * 2 powr of_int (ulp_exponent x))"

fun js_fl :: "jsnum \<Rightarrow> jsnum" where
  "js_fl (Fin a) = (if 2 ^ 1024 \<le> \<bar>fl a\<bar> then (if 0 < a then PInf else NInf) else Fin (fl a))"
| "js_fl x = x"

subsection \<open>The functions of \<open>Math\<close>\<close>

fun js_floor :: "jsnum \<Rightarrow> jsnum" where
  "js_floor (Fin a) = Fin (of_int \<lfloor>a\<rfloor>)"
| "js_floor x = x"

fun js_ceil :: "jsnum \<Rightarrow> jsnum" where
  "js_ceil (Fin a) = Fin (of_int \<lceil>a\<rceil>)"
| "js_ceil x = x"

text \<open>\<open>Math.round\<close> rounds to the nearest integer, a tie towards +\<infinity>.\<close>

fun js_round :: "jsnum \<Rightarrow> jsnum" where
  "js_round (Fin a) = Fin (of_int \<lfloor>a + 1 / 2\<rfloor>)"
| "js_round x = x"

fun js_sin :: "jsnum \<Rightarrow> jsnum" where
  "js_sin (Fin a) = Fin (sin a)"
| "js_sin x = NaN"

fun js_cos :: "jsnum \<Rightarrow> jsnum" where
  "js_cos (Fin a) = Fin (cos a)"
| "js_cos x = NaN"

fun js_sqrt :: "jsnum \<Rightarrow> jsnum" where
  "js_sqrt (Fin a) = (if a < 0 then NaN else Fin (sqrt a))"
| "js_sqrt PInf = PInf"
| "js_sqrt x = NaN"

fun js_atan2 :: "jsnum \<Rightarrow> jsnum \<Rightarrow> jsnum" where
  "js_atan2 NaN x = NaN"
| "js_atan2 y NaN = NaN"
| "js_atan2 (Fin y) (Fin x) =
     (if 0 < x then Fin (arctan (y / x))
      else if x < 0 then (if 0 \<le> y then Fin (arctan (y / x) + pi) else Fin (arctan (y / x) - pi))
      else if 0 < y then Fin (pi / 2)
      else if y < 0 then Fin (- pi / 2)
      else Fin 0)"
| "js_atan2 (Fin y) PInf = Fin 0"
| "js_atan2 (Fin y) NInf = (if 0 \<le> y then Fin pi else Fin (- pi))"
| "js_atan2 PInf (Fin x) = Fin (pi / 2)"
| "js_atan2 NInf (Fin x) = Fin (- pi / 2)"
| "js_atan2 PInf PInf = Fin (pi / 4)"
| "js_atan2 PInf NInf = Fin (3 * pi / 4)"
| "js_atan2 NInf PInf = Fin (- pi / 4)"
| "js_atan2 NInf NInf = Fin (- 3 * pi / 4)"

section \<open>The helpers of the server\<close>

text \<open>
  \<^verbatim>\<open>function calculateDistance(lat1, lon1, lat2, lon2)\<close>: the Haversine formula as the
  source writes it, the operators coercing their operands to numbers. The source does
  not clamp \<open>a\<close>: a value of \<open>a\<close> above 1 makes \<open>Math.sqrt(1 - a)\<close> NaN, and so the result.
  In the exact arithmetic of this model \<open>a\<close> stays within 0 and 1 for finite coordinates;
  in doubles it exceeds 1 for some antipodal points (claim C5).
\<close>

definition calculateDistance :: "jsval \<Rightarrow> jsval \<Rightarrow> jsval \<Rightarrow> jsval \<Rightarrow> jsnum" where
  "calculateDistance lat1 lon1 lat2 lon2 =
     (let R = Fin 6371;
          dLat = js_div (js_mul (js_sub (to_number lat2) (to_number lat1)) (Fin pi)) (Fin 180);
          dLon = js_div (js_mul (js_sub (to_number lon2) (to_number lon1)) (Fin pi)) (Fin 180);
          a = js_add
                (js_mul (js_sin (js_div dLat (Fin 2))) (js_sin (js_div dLat (Fin 2))))
                (js_mul
                  (js_mul
                    (js_mul (js_cos (js_div (js_mul (to_number lat1) (Fin pi)) (Fin 180)))
                            (js_cos (js_div (js_mul (to_number lat2) (Fin pi)) (Fin 180))))
                    (js_sin (js_div dLon (Fin 2))))
                  (js_sin (js_div dLon (Fin 2))));
          c = js_mul (Fin 2) (js_atan2 (js_sqrt a) (js_sqrt (js_sub (Fin 1) a)));
          distance = js_mul R c
      in js_div (js_round (js_mul distance (Fin 100))) (Fin 100))"

text \<open>
  \<^verbatim>\<open>function roundDistance(value)\<close>: 0 for a value that is not a number or is NaN,
  otherwise the floor when \<^verbatim>\<open>decimal = value - Math.floor(value)\<close>, a double, is at most
  0.5 and the ceiling when it is not.
\<close>

definition roundDistance :: "jsval \<Rightarrow> jsnum" where
  "roundDistance v =
     (case v of
        JNum n \<Rightarrow>
          if n = NaN then Fin 0
          else (let decimal = js_fl (js_sub n (js_floor n))
                in if js_le decimal (Fin (1 / 2)) then js_floor n else js_ceil n)
      | _ \<Rightarrow> Fin 0)"

section \<open>The user's record and the trip\<close>

text \<open>
  The active trip is the object that \<^verbatim>\<open>/api/trip/start\<close> stores on the user's record.
  Of its fields the model keeps those that the handlers read again; the identifier, the
  clock readings, the area names and the route points come from the clock and the
  geocoding service and reach neither a distance nor an odometer.
\<close>

record trip =
  purpose :: string
  startDate :: jsval
  startOdometer :: jsnum
  startLatitude :: jsval
  startLongitude :: jsval

text \<open>\<^verbatim>\<open>models/UserData.js\<close>: \<open>currentOdometer\<close> is a Number, \<open>activeTrip\<close> is null or a trip.\<close>

record user_data =
  currentOdometer :: jsnum
  activeTrip :: "trip option"

text \<open>
  The completed trip is the active trip (\<^verbatim>\<open>...trip\<close>) with the fields of the end. Its
  field \<open>gpsDistance\<close> is written \<open>gpsDistanceKept\<close> here, the name being that of a field
  of the request body.
\<close>

record completed_trip = trip +
  endLatitude :: jsval
  endLongitude :: jsval
  gpsDistanceKept :: jsval
  endOdometer :: jsnum
  totalDistance :: jsnum
  distanceSource :: string

datatype error = BadRequest string | ServerError string

text \<open>The body of \<^verbatim>\<open>POST /api/trip/end\<close>, as the handler destructures it.\<close>

record end_body =
  latitude :: jsval
  longitude :: jsval
  gpsDistance :: jsval
  actualTravelledDistance :: jsval
  userProvidedEndOdometer :: jsval

section \<open>The handlers\<close>

text \<open>
  The first two handlers end by saving the record of the user, which casts nothing
  that can fail here: \<open>currentOdometer\<close> is a number that is not NaN and \<open>activeTrip\<close> is
  of the schema type Mixed.
\<close>

text \<open>
  \<^verbatim>\<open>POST /api/odometer\<close> with a number in the body: \<open>parseFloat\<close> of a number is that
  number. The request is refused when \<^verbatim>\<open>!odometer || isNaN(odometer) || parseFloat(odometer) < 0\<close>.
\<close>

definition update_odometer :: "user_data \<Rightarrow> jsnum \<Rightarrow> error + user_data" where
  "update_odometer ud odometer =
     (if \<not> truthy (JNum odometer) \<or> odometer = NaN \<or> js_lt odometer (Fin 0)
      then Inl (BadRequest ''Valid odometer reading is required'')
      else Inr (ud\<lparr>currentOdometer := odometer\<rparr>))"

text \<open>
  \<^verbatim>\<open>POST /api/trip/start\<close>. The argument \<open>purpose_trimmed\<close> is the trimmed text of the
  field \<open>purpose\<close>, empty when \<^verbatim>\<open>!purpose || !purpose.trim()\<close> holds.
\<close>

definition trip_start :: "user_data \<Rightarrow> string \<Rightarrow> jsval \<Rightarrow> jsval \<Rightarrow> jsval \<Rightarrow> error + user_data" where
  "trip_start ud purpose_trimmed date lat lon =
     (if purpose_trimmed = [] then Inl (BadRequest ''Purpose of trip is required'')
      else if \<not> truthy date then Inl (BadRequest ''Trip date is required'')
      else if \<not> truthy lat \<or> \<not> truthy lon
        then Inl (BadRequest ''Location coordinates are required'')
      else (case activeTrip ud of
              Some t \<Rightarrow> Inl (BadRequest ''Please end current trip before starting a new one'')
            | None \<Rightarrow>
                Inr (ud\<lparr>activeTrip := Some
                  \<lparr>purpose = purpose_trimmed,
                   startDate = date,
                   startOdometer = currentOdometer ud,
                   startLatitude = lat,
                   startLongitude = lon\<rparr>\<rparr>)))"

text \<open>\<^verbatim>\<open>x !== null && x !== undefined\<close>\<close>

definition provided :: "jsval \<Rightarrow> bool" where
  "provided v = (v \<noteq> JNull \<and> v \<noteq> JUndefined)"

text \<open>
  The choice of \<^verbatim>\<open>finalDistance\<close> and \<^verbatim>\<open>distanceSource\<close> in \<^verbatim>\<open>POST /api/trip/end\<close>:
  the first component is \<open>finalDistance\<close>, the second \<open>distanceSource\<close>.
\<close>

definition chooseDistance :: "trip \<Rightarrow> end_body \<Rightarrow> jsval \<times> string" where
  "chooseDistance t body =
     (let straightLineDistance =
            calculateDistance (startLatitude t) (startLongitude t) (latitude body) (longitude body)
      in if provided (userProvidedEndOdometer body)
           then (actualTravelledDistance body, ''odometer reading'')
         else if truthy (gpsDistance body) \<and> js_gt (to_number (gpsDistance body)) (Fin (1 / 100))
           then (gpsDistance body, ''GPS tracking'')
         else (JNum straightLineDistance, ''straight-line calculation''))"

text \<open>\<^verbatim>\<open>newEndOdometer\<close>, from the user's reading or from the odometer and the distance.\<close>

definition newEndOdometer :: "user_data \<Rightarrow> end_body \<Rightarrow> jsnum \<Rightarrow> jsnum" where
  "newEndOdometer ud body roundedDistance =
     (if provided (userProvidedEndOdometer body)
      then roundDistance (userProvidedEndOdometer body)
      else roundDistance (JNum (js_add (currentOdometer ud) roundedDistance)))"

text \<open>
  \<^verbatim>\<open>POST /api/trip/end\<close>: the new record of the user and the completed trip, or the
  answer 400 or 500. The argument \<open>saved\<close> is the outcome of
  \<^verbatim>\<open>new Trip(completedTrip).save()\<close> in the document store: the Trip schema casts the
  coordinates, \<open>gpsDistance\<close>, the odometers, \<open>totalDistance\<close> and the route points to
  Number, and a field it cannot cast (a latitude or a \<open>gpsDistance\<close> that is the string
  "abc", say) makes the save throw; the handler then answers 500 and the record of the
  user stays as it was. Geocoding and the CSV row are the work of other services.
\<close>

definition trip_end :: "bool \<Rightarrow> user_data \<Rightarrow> end_body \<Rightarrow> error + user_data \<times> completed_trip" where
  "trip_end saved ud body =
     (if \<not> truthy (latitude body) \<or> \<not> truthy (longitude body)
        then Inl (BadRequest ''Location coordinates are required'')
      else (case activeTrip ud of
              None \<Rightarrow> Inl (BadRequest ''No active trip found'')
            | Some t \<Rightarrow>
                (let (finalDistance, source) = chooseDistance t body;
                     roundedDistance = roundDistance finalDistance;
                     newEnd = newEndOdometer ud body roundedDistance;
                     completedTrip =
                       \<lparr>purpose = purpose t,
                        startDate = startDate t,
                        startOdometer = startOdometer t,
                        startLatitude = startLatitude t,
                        startLongitude = startLongitude t,
                        endLatitude = latitude body,
                        endLongitude = longitude body,
                        gpsDistanceKept =
                          (if truthy (gpsDistance body) then gpsDistance body else JNum (Fin 0)),
                        endOdometer = newEnd,
                        totalDistance = roundedDistance,
                        distanceSource = source\<rparr>
                 in if \<not> saved then Inl (ServerError ''Failed to end trip'')
                    else Inr (ud\<lparr>currentOdometer := newEnd, activeTrip := None\<rparr>, completedTrip))))"

text \<open>A number that is whole: finite and equal to its floor.\<close>

fun is_whole :: "jsnum \<Rightarrow> bool" where
  "is_whole (Fin a) = (of_int \<lfloor>a\<rfloor> = a)"
| "is_whole x = False"

section \<open>Sample requests\<close>

definition sydney_trip :: trip where
  "sydney_trip =
     \<lparr>purpose = ''client visit'',
      startDate = JOther True NaN,
      startOdometer = Fin 100,
      startLatitude = JNum (Fin (- 33.8688)),
      startLongitude = JNum (Fin 151.2093)\<rparr>"

definition sydney_user :: user_data where
  "sydney_user = \<lparr>currentOdometer = Fin 100, activeTrip = Some sydney_trip\<rparr>"

definition melbourne_body :: end_body where
  "melbourne_body =
     \<lparr>latitude = JNum (Fin (- 37.8136)),
      longitude = JNum (Fin 144.9631),
      gpsDistance = JUndefined,
      actualTravelledDistance = JUndefined,
      userProvidedEndOdometer = JUndefined\<rparr>"

definition new_user :: user_data where
  "new_user = \<lparr>currentOdometer = Fin 0, activeTrip = None\<rparr>"

section \<open>Notions of the specification\<close>

text \<open>\<^verbatim>\<open>typeof v === 'number'\<close>\<close>

fun is_number :: "jsval \<Rightarrow> bool" where
  "is_number (JNum n) = True"
| "is_number v = False"

text \<open>Numbers that are finite or NaN, and numbers that are finite and not negative, or NaN.\<close>

fun finite_or_NaN :: "jsnum \<Rightarrow> bool" where
  "finite_or_NaN (Fin a) = True"
| "finite_or_NaN NaN = True"
| "finite_or_NaN x = False"

fun nonneg_or_NaN :: "jsnum \<Rightarrow> bool" where
  "nonneg_or_NaN (Fin a) = (0 \<le> a)"
| "nonneg_or_NaN NaN = True"
| "nonneg_or_NaN x = False"




section \<open>Rounding\<close>

lemma round_even_le: "z \<le> of_int n \<Longrightarrow> round_even z \<le> n"
  unfolding round_even_def Let_def by (auto; linarith)

lemma round_even_nonneg: "0 \<le> z \<Longrightarrow> 0 \<le> round_even z"
  unfolding round_even_def Let_def by (auto; linarith)

lemma round_even_le_even_iff:
  assumes "even n"
  shows "round_even z \<le> n \<longleftrightarrow> z \<le> of_int n + 1 / 2"
proof
  assume "round_even z \<le> n"
  then show "z \<le> of_int n + 1 / 2"
    unfolding round_even_def Let_def by (auto split: if_splits; linarith)
next
  assume z: "z \<le> of_int n + 1 / 2"
  show "round_even z \<le> n"
  proof (cases "z \<le> of_int n")
    case True
    then show ?thesis by (rule round_even_le)
  next
    case False
    with z have "\<lfloor>z\<rfloor> = n" by linarith
    with z assms show ?thesis
      unfolding round_even_def Let_def by auto
  qed
qed

lemma fl_upper_binade:
  assumes "1 / 2 \<le> y" "y < 1"
  shows "fl y = of_int (round_even (y * 2 ^ 53)) / 2 ^ 53"
proof -
  have "\<lfloor>log 2 \<bar>y\<bar>\<rfloor> = - 1"
    using assms by (subst floor_log_eq_powr_iff) (simp_all add: powr_minus_divide)
  then have k: "ulp_exponent y = - 53"
    by (simp add: ulp_exponent_def)
  have "(2::real) powr (- 53) = inverse (2 powr 53)"
    by (rule powr_minus)
  then have p: "2 powr of_int (- 53) = (1 / 2 ^ 53 :: real)"
    by (simp add: inverse_eq_divide)
  from assms have "y \<noteq> 0" by simp
  then show ?thesis
    unfolding fl_def k p by simp
qed

lemma fl_lower:
  assumes "0 < y" "y < 1 / 2"
  shows "0 \<le> fl y" and "fl y \<le> 1 / 2"
proof -
  define e where "e = \<lfloor>log 2 \<bar>y\<bar>\<rfloor>"
  define k where "k = ulp_exponent y"
  have e: "2 powr of_int e \<le> y" "y < 2 powr (of_int e + 1)"
    using assms(1) floor_log_eq_powr_iff [of y 2 e] by (simp_all add: e_def)
  have "(2::real) powr of_int e < 2 powr (- 1)"
    using e(1) assms(2) by (simp add: powr_minus_divide)
  then have "real_of_int e < - 1"
    by (rule powr_less_cancel) simp
  then have "e < - 1"
    by linarith
  then have k54: "k \<le> - 54" and ke: "e \<le> k + 52"
    by (simp_all add: k_def ulp_exponent_def e_def)
  have pk: "0 < (2::real) powr of_int k" by simp
  have "y < 2 powr (of_int k + 53)"
  proof -
    have "real_of_int e + 1 \<le> of_int k + 53"
      using ke by linarith
    then have "(2::real) powr (of_int e + 1) \<le> 2 powr (of_int k + 53)"
      by (rule powr_mono) simp
    with e(2) show ?thesis by (rule less_le_trans)
  qed
  also have "\<dots> = 2 powr of_int k * 2 ^ 53"
    by (simp add: powr_add)
  finally have "y / 2 powr of_int k < 2 ^ 53"
    using pk by (simp add: field_simps)
  then have "y / 2 powr of_int k \<le> of_int (2 ^ 53)" by simp
  then have r: "round_even (y / 2 powr of_int k) \<le> 2 ^ 53"
    by (rule round_even_le)
  have r0: "0 \<le> round_even (y / 2 powr of_int k)"
    using assms(1) by (intro round_even_nonneg) simp
  have f: "fl y = of_int (round_even (y / 2 powr of_int k)) * 2 powr of_int k"
    using assms(1) by (simp add: fl_def k_def)
  show "0 \<le> fl y"
    unfolding f using r0 by simp
  have "real_of_int (round_even (y / 2 powr of_int k)) \<le> real_of_int (2 ^ 53)"
    using r by (simp only: of_int_le_iff)
  then have r': "real_of_int (round_even (y / 2 powr of_int k)) \<le> 2 ^ 53"
    by simp
  have "fl y \<le> 2 ^ 53 * 2 powr of_int k"
    unfolding f using r' pk by (intro mult_right_mono) simp_all
  also have "\<dots> \<le> 2 ^ 53 * 2 powr of_int (- 54)"
  proof -
    have "(2::real) powr of_int k \<le> 2 powr of_int (- 54)"
      using k54 by (intro powr_mono) simp_all
    then show ?thesis by simp
  qed
  also have "\<dots> = 1 / 2"
  proof -
    have "(2::real) powr (- 54) = inverse (2 powr 54)"
      by (rule powr_minus)
    then show ?thesis by (simp add: inverse_eq_divide)
  qed
  finally show "fl y \<le> 1 / 2" .
qed

lemma fl_fraction:
  assumes "0 \<le> y" "y < 1"
  shows "0 \<le> fl y" and "fl y \<le> 1" and "fl y \<le> 1 / 2 \<longleftrightarrow> y \<le> 1 / 2 + 1 / 2 ^ 54"
proof -
  consider "y = 0" | "0 < y" "y < 1 / 2" | "1 / 2 \<le> y"
    using assms(1) by linarith
  then have "0 \<le> fl y \<and> fl y \<le> 1 \<and> (fl y \<le> 1 / 2 \<longleftrightarrow> y \<le> 1 / 2 + 1 / 2 ^ 54)"
  proof cases
    case 1
    then show ?thesis by (simp add: fl_def)
  next
    case 2
    from fl_lower [OF 2] 2 show ?thesis by simp
  next
    case 3
    note f = fl_upper_binade [OF 3 assms(2)]
    have a: "0 \<le> round_even (y * 2 ^ 53)"
      using assms(1) by (intro round_even_nonneg) simp
    have "y * 2 ^ 53 \<le> of_int (2 ^ 53)"
      using assms(2) by simp
    then have b: "round_even (y * 2 ^ 53) \<le> 2 ^ 53"
      by (rule round_even_le)
    have "fl y \<le> 1 / 2 \<longleftrightarrow> round_even (y * 2 ^ 53) \<le> 2 ^ 52"
    proof -
      have "fl y \<le> 1 / 2 \<longleftrightarrow> real_of_int (round_even (y * 2 ^ 53)) \<le> of_int (2 ^ 52)"
        unfolding f by (simp add: field_simps)
      then show ?thesis by (simp only: of_int_le_iff)
    qed
    also have "\<dots> \<longleftrightarrow> y * 2 ^ 53 \<le> of_int (2 ^ 52) + 1 / 2"
      by (rule round_even_le_even_iff) simp
    also have "\<dots> \<longleftrightarrow> y \<le> 1 / 2 + 1 / 2 ^ 54"
      by (simp add: field_simps)
    finally have c: "fl y \<le> 1 / 2 \<longleftrightarrow> y \<le> 1 / 2 + 1 / 2 ^ 54" .
    have "real_of_int (round_even (y * 2 ^ 53)) \<le> of_int (2 ^ 53)"
      using b by (simp only: of_int_le_iff)
    then have "fl y \<le> 1" unfolding f by simp
    moreover have "0 \<le> fl y" unfolding f using a by simp
    ultimately show ?thesis using c by simp
  qed
  then show "0 \<le> fl y" and "fl y \<le> 1" and "fl y \<le> 1 / 2 \<longleftrightarrow> y \<le> 1 / 2 + 1 / 2 ^ 54"
    by simp_all
qed

lemma roundDistance_Fin_fl:
  "roundDistance (JNum (Fin x)) =
     Fin (of_int (if fl (x - of_int \<lfloor>x\<rfloor>) \<le> 1 / 2 then \<lfloor>x\<rfloor> else \<lceil>x\<rceil>))"
proof -
  have y: "0 \<le> x - of_int \<lfloor>x\<rfloor>" "x - of_int \<lfloor>x\<rfloor> < 1"
    by linarith+
  from fl_fraction(1,2) [OF y] have "\<bar>fl (x - of_int \<lfloor>x\<rfloor>)\<bar> \<le> 1"
    by simp
  also have "(1::real) < 2 ^ 1024"
    by simp
  finally have "\<not> 2 ^ 1024 \<le> \<bar>fl (x - of_int \<lfloor>x\<rfloor>)\<bar>"
    by simp
  then have "js_fl (js_sub (Fin x) (js_floor (Fin x))) = Fin (fl (x - of_int \<lfloor>x\<rfloor>))"
    by (simp add: js_sub_def)
  then show ?thesis
    by (simp add: roundDistance_def)
qed

lemma roundDistance_Fin:
  "roundDistance (JNum (Fin x)) =
     Fin (of_int (if x - of_int \<lfloor>x\<rfloor> \<le> 1 / 2 + 1 / 2 ^ 54 then \<lfloor>x\<rfloor> else \<lceil>x\<rceil>))"
proof -
  have y: "0 \<le> x - of_int \<lfloor>x\<rfloor>" "x - of_int \<lfloor>x\<rfloor> < 1"
    by linarith+
  show ?thesis
    unfolding roundDistance_Fin_fl fl_fraction(3) [OF y] ..
qed

lemma roundDistance_infinite:
  "roundDistance (JNum PInf) = PInf" "roundDistance (JNum NInf) = NInf"
  by (simp_all add: roundDistance_def js_sub_def)

lemma roundDistance_zero: "\<not> is_number v \<or> v = JNum NaN \<Longrightarrow> roundDistance v = Fin 0"
  by (cases v) (auto simp: roundDistance_def)


lemma roundDistance_whole:
  "v \<noteq> JNum PInf \<Longrightarrow> v \<noteq> JNum NInf \<Longrightarrow> is_whole (roundDistance v)"
proof (cases v)
  case (JNum n)
  then show "v \<noteq> JNum PInf \<Longrightarrow> v \<noteq> JNum NInf \<Longrightarrow> is_whole (roundDistance v)"
    by (cases n) (simp_all add: roundDistance_Fin roundDistance_zero)
qed (simp_all add: roundDistance_zero)

lemma roundDistance_of_whole: "is_whole n \<Longrightarrow> roundDistance (JNum n) = n"
  by (cases n) (simp_all add: roundDistance_Fin)

lemma is_whole_add: "is_whole x \<Longrightarrow> is_whole y \<Longrightarrow> is_whole (js_add x y)"
proof (cases x; cases y)
  fix a b
  assume x: "x = Fin a" and y: "y = Fin b" and "is_whole x" "is_whole y"
  then obtain n m :: int where "a = of_int n" "b = of_int m"
    by (auto simp: of_int_floor_cancel)
  then have "a + b = of_int (n + m)" by simp
  then have "of_int \<lfloor>a + b\<rfloor> = a + b" by (simp only: of_int_floor_cancel) blast
  with x y show "is_whole (js_add x y)" by simp
qed simp_all

lemma roundDistance_nonneg:
  "nonneg_or_NaN n \<or> n = PInf \<Longrightarrow> js_le (Fin 0) (roundDistance (JNum n))"
  by (cases n) (auto simp: roundDistance_Fin roundDistance_infinite roundDistance_zero)

section \<open>The end of a trip\<close>

lemma trip_end_checked:
  assumes "truthy (latitude body)" "truthy (longitude body)" "activeTrip ud = Some t"
  shows "trip_end saved ud body =
     (if saved then
        Inr (ud\<lparr>currentOdometer := newEndOdometer ud body (roundDistance (fst (chooseDistance t body))),
                 activeTrip := None\<rparr>,
             \<lparr>purpose = purpose t,
              startDate = startDate t,
              startOdometer = startOdometer t,
              startLatitude = startLatitude t,
              startLongitude = startLongitude t,
              endLatitude = latitude body,
              endLongitude = longitude body,
              gpsDistanceKept = (if truthy (gpsDistance body) then gpsDistance body else JNum (Fin 0)),
              endOdometer = newEndOdometer ud body (roundDistance (fst (chooseDistance t body))),
              totalDistance = roundDistance (fst (chooseDistance t body)),
              distanceSource = snd (chooseDistance t body)\<rparr>)
      else Inl (ServerError ''Failed to end trip''))"
  using assms by (simp add: trip_end_def Let_def split: prod.splits)

lemma trip_end_InrD:
  assumes "trip_end saved ud body = Inr (ud', ct)"
  obtains t where "activeTrip ud = Some t" "truthy (latitude body)" "truthy (longitude body)" "saved"
  using assms by (auto simp: trip_end_def Let_def split: if_splits option.splits prod.splits)

lemma trip_end_fields:
  assumes "trip_end saved ud body = Inr (ud', ct)" and "activeTrip ud = Some t"
  shows "totalDistance ct = roundDistance (fst (chooseDistance t body))"
    and "distanceSource ct = snd (chooseDistance t body)"
    and "endOdometer ct = newEndOdometer ud body (totalDistance ct)"
    and "startOdometer ct = startOdometer t"
    and "currentOdometer ud' = endOdometer ct"
    and "activeTrip ud' = None"
proof -
  from assms(1) have l: "truthy (latitude body)" "truthy (longitude body)" and sv: "saved"
    by (auto elim: trip_end_InrD)
  from trip_end_checked [OF l assms(2), of saved] sv assms(1)
  show "totalDistance ct = roundDistance (fst (chooseDistance t body))"
    and "distanceSource ct = snd (chooseDistance t body)"
    and "endOdometer ct = newEndOdometer ud body (totalDistance ct)"
    and "startOdometer ct = startOdometer t"
    and "currentOdometer ud' = endOdometer ct"
    and "activeTrip ud' = None"
    by auto
qed

lemma trip_start_InrD:
  assumes "trip_start ud0 p d la lo = Inr ud"
  shows "currentOdometer ud = currentOdometer ud0"
    and "\<exists>t. activeTrip ud = Some t \<and> startOdometer t = currentOdometer ud0
           \<and> startLatitude t = la \<and> startLongitude t = lo"
  using assms by (auto simp: trip_start_def split: if_splits option.splits)

section \<open>The Haversine distance\<close>








lemma js_sin_class: "finite_or_NaN (js_sin x)"
  by (cases x) simp_all

lemma js_cos_class: "finite_or_NaN (js_cos x)"
  by (cases x) simp_all

lemma js_mul_class: "finite_or_NaN x \<Longrightarrow> finite_or_NaN y \<Longrightarrow> finite_or_NaN (js_mul x y)"
  by (cases x; cases y) simp_all

lemma js_add_class: "finite_or_NaN x \<Longrightarrow> finite_or_NaN y \<Longrightarrow> finite_or_NaN (js_add x y)"
  by (cases x; cases y) simp_all

lemma js_sub_class: "finite_or_NaN x \<Longrightarrow> finite_or_NaN y \<Longrightarrow> finite_or_NaN (js_sub x y)"
  by (cases x; cases y) (simp_all add: js_sub_def)

lemma js_sqrt_class: "finite_or_NaN x \<Longrightarrow> nonneg_or_NaN (js_sqrt x)"
  by (cases x) simp_all

lemma js_atan2_class: "nonneg_or_NaN y \<Longrightarrow> nonneg_or_NaN x \<Longrightarrow> nonneg_or_NaN (js_atan2 y x)"
  by (cases x; cases y) simp_all

lemma js_mul_nonneg: "0 \<le> k \<Longrightarrow> nonneg_or_NaN x \<Longrightarrow> nonneg_or_NaN (js_mul (Fin k) x)"
  by (cases x) simp_all

lemma js_mul_nonneg_right: "0 \<le> k \<Longrightarrow> nonneg_or_NaN x \<Longrightarrow> nonneg_or_NaN (js_mul x (Fin k))"
  by (cases x) simp_all

lemma js_round_nonneg: "nonneg_or_NaN x \<Longrightarrow> nonneg_or_NaN (js_round x)"
  by (cases x) simp_all

lemma js_div_nonneg: "0 < k \<Longrightarrow> nonneg_or_NaN x \<Longrightarrow> nonneg_or_NaN (js_div x (Fin k))"
  by (cases x) simp_all

lemma calculateDistance_nonneg: "nonneg_or_NaN (calculateDistance lat1 lon1 lat2 lon2)"
  unfolding calculateDistance_def Let_def
  by (intro js_div_nonneg js_round_nonneg js_mul_nonneg_right js_mul_nonneg js_atan2_class
      js_sqrt_class js_sub_class js_add_class js_mul_class js_sin_class js_cos_class) simp_all

section \<open>The claims of the specification\<close>

subsection \<open>The source of the distance\<close>

text \<open>
  C1: when \<open>userProvidedEndOdometer\<close> is provided, the chosen distance should be
  \<open>userProvidedEndOdometer\<close> minus the user's \<open>currentOdometer\<close>, with the source tag
  "odometer reading". The handler takes the field \<open>actualTravelledDistance\<close> of the
  request instead: with the odometer at 100, a reading of 150 and a travelled distance
  of 7 sent along, the chosen distance is 7 while the readings differ by 50, and the
  completed trip runs from 100 to 150 with a total distance of 7.
\<close>

theorem odometer_branch_takes_actualTravelledDistance:
  "chooseDistance sydney_trip
     (melbourne_body\<lparr>userProvidedEndOdometer := JNum (Fin 150),
                     actualTravelledDistance := JNum (Fin 7)\<rparr>)
     = (JNum (Fin 7), ''odometer reading'')
   \<and> js_sub (to_number (JNum (Fin 150))) (currentOdometer sydney_user) = Fin 50
   \<and> trip_end True sydney_user
        (melbourne_body\<lparr>userProvidedEndOdometer := JNum (Fin 150),
                        actualTravelledDistance := JNum (Fin 7)\<rparr>)
      = Inr (\<lparr>currentOdometer = Fin 150, activeTrip = None\<rparr>,
             \<lparr>purpose = ''client visit'',
              startDate = JOther True NaN,
              startOdometer = Fin 100,
              startLatitude = JNum (Fin (- 33.8688)),
              startLongitude = JNum (Fin 151.2093),
              endLatitude = JNum (Fin (- 37.8136)),
              endLongitude = JNum (Fin 144.9631),
              gpsDistanceKept = JNum (Fin 0),
              endOdometer = Fin 150,
              totalDistance = Fin 7,
              distanceSource = ''odometer reading''\<rparr>)"
  by (simp add: trip_end_def sydney_user_def sydney_trip_def melbourne_body_def chooseDistance_def
      provided_def newEndOdometer_def roundDistance_Fin js_sub_def Let_def)

theorem odometer_branch_takes_actualTravelledDistance_witness:
  "fst (chooseDistance sydney_trip
     (melbourne_body\<lparr>userProvidedEndOdometer := JNum (Fin 150),
                     actualTravelledDistance := JNum (Fin 7)\<rparr>))
     \<noteq> JNum (js_sub (to_number (JNum (Fin 150))) (currentOdometer sydney_user))"
  using odometer_branch_takes_actualTravelledDistance by simp

text \<open>
  C3: whenever \<open>userProvidedEndOdometer\<close> is provided, the odometer-reading branch is
  taken, whatever the value of \<open>gpsDistance\<close>: the source tag of the choice, and of the
  completed trip, is "odometer reading".
\<close>

theorem odometer_reading_has_priority:
  assumes "provided (userProvidedEndOdometer body)"
  shows "snd (chooseDistance t (body\<lparr>gpsDistance := g\<rparr>)) = ''odometer reading''
     \<and> (trip_end saved ud (body\<lparr>gpsDistance := g\<rparr>) = Inr (ud', ct)
          \<longrightarrow> distanceSource ct = ''odometer reading'')"
proof -
  have a: "snd (chooseDistance t' (body\<lparr>gpsDistance := g\<rparr>)) = ''odometer reading''" for t'
    using assms by (simp add: chooseDistance_def)
  have "distanceSource ct = ''odometer reading''"
    if e: "trip_end saved ud (body\<lparr>gpsDistance := g\<rparr>) = Inr (ud', ct)"
  proof -
    from e obtain t' where "activeTrip ud = Some t'"
      by (auto elim: trip_end_InrD)
    from trip_end_fields(2) [OF e this] a show ?thesis by simp
  qed
  with a show ?thesis by simp
qed

theorem odometer_reading_has_priority_witness:
  "provided (userProvidedEndOdometer (melbourne_body\<lparr>userProvidedEndOdometer := JNum (Fin 50)\<rparr>))
   \<and> snd (chooseDistance sydney_trip
        (melbourne_body\<lparr>userProvidedEndOdometer := JNum (Fin 50), gpsDistance := JNum (Fin 10)\<rparr>))
      = ''odometer reading''
   \<and> trip_end True sydney_user
        (melbourne_body\<lparr>userProvidedEndOdometer := JNum (Fin 50), gpsDistance := JNum (Fin 10)\<rparr>)
      = Inr (\<lparr>currentOdometer = Fin 50, activeTrip = None\<rparr>,
             \<lparr>purpose = ''client visit'',
              startDate = JOther True NaN,
              startOdometer = Fin 100,
              startLatitude = JNum (Fin (- 33.8688)),
              startLongitude = JNum (Fin 151.2093),
              endLatitude = JNum (Fin (- 37.8136)),
              endLongitude = JNum (Fin 144.9631),
              gpsDistanceKept = JNum (Fin 10),
              endOdometer = Fin 50,
              totalDistance = Fin 0,
              distanceSource = ''odometer reading''\<rparr>)"
proof -
  have p: "provided (userProvidedEndOdometer (melbourne_body\<lparr>userProvidedEndOdometer := JNum (Fin 50)\<rparr>))"
    by (simp add: provided_def)
  have e: "trip_end True sydney_user
        (melbourne_body\<lparr>userProvidedEndOdometer := JNum (Fin 50), gpsDistance := JNum (Fin 10)\<rparr>)
      = Inr (\<lparr>currentOdometer = Fin 50, activeTrip = None\<rparr>,
             \<lparr>purpose = ''client visit'',
              startDate = JOther True NaN,
              startOdometer = Fin 100,
              startLatitude = JNum (Fin (- 33.8688)),
              startLongitude = JNum (Fin 151.2093),
              endLatitude = JNum (Fin (- 37.8136)),
              endLongitude = JNum (Fin 144.9631),
              gpsDistanceKept = JNum (Fin 10),
              endOdometer = Fin 50,
              totalDistance = Fin 0,
              distanceSource = ''odometer reading''\<rparr>)"
    by (simp add: trip_end_def sydney_user_def sydney_trip_def melbourne_body_def chooseDistance_def
        provided_def newEndOdometer_def roundDistance_Fin roundDistance_zero Let_def)
  from odometer_reading_has_priority [OF p, of sydney_trip "JNum (Fin 10)"] p e
  show ?thesis by simp
qed

text \<open>
  C4: when \<open>userProvidedEndOdometer\<close> is absent and \<open>gpsDistance\<close> is a number greater than
  0.01, the chosen distance, before rounding, is \<open>gpsDistance\<close> and the source tag is
  "GPS tracking".
\<close>

theorem gps_tracking_chosen:
  assumes "\<not> provided (userProvidedEndOdometer body)"
    and "gpsDistance body = JNum g"
    and "js_gt g (Fin (1 / 100))"
  shows "chooseDistance t body = (JNum g, ''GPS tracking'')"
proof -
  from assms(3) have "g \<noteq> NaN" "g \<noteq> Fin 0"
    by (auto simp: js_gt_def)
  with assms show ?thesis
    by (simp add: chooseDistance_def)
qed

theorem gps_tracking_chosen_witness:
  "\<not> provided (userProvidedEndOdometer (melbourne_body\<lparr>gpsDistance := JNum (Fin 12.4)\<rparr>))
   \<and> js_gt (Fin 12.4) (Fin (1 / 100))
   \<and> chooseDistance sydney_trip (melbourne_body\<lparr>gpsDistance := JNum (Fin 12.4)\<rparr>)
       = (JNum (Fin 12.4), ''GPS tracking'')"
  using gps_tracking_chosen [of "melbourne_body\<lparr>gpsDistance := JNum (Fin 12.4)\<rparr>" "Fin 12.4" sydney_trip]
  by (simp add: melbourne_body_def provided_def js_gt_def)


subsection \<open>Rounding and the new odometer\<close>

text \<open>
  C2: for every number \<open>x\<close>, \<open>roundDistance x\<close> is the floor of \<open>x\<close> when the difference
  \<open>x - floor x\<close>, rounded to the nearest double as the subtraction of the source is, is at
  most 0.5, which is when the exact difference is at most \<open>0.5 + 2^-54\<close>, and the
  ceiling of \<open>x\<close> otherwise; in particular \<open>roundDistance 3.5 = 3\<close>,
  \<open>roundDistance 3.50001 = 4\<close> and \<open>roundDistance (-1.3) = -1\<close>, and on the double
  -0.49999999999999994, which is \<open>-(0.5 - 2^-54)\<close>, the result is -1.
\<close>

theorem roundDistance_double_midpoint_down:
  "roundDistance (JNum (Fin x)) =
     (if fl (x - of_int \<lfloor>x\<rfloor>) \<le> 1 / 2 then Fin (of_int \<lfloor>x\<rfloor>) else Fin (of_int \<lceil>x\<rceil>))
   \<and> (fl (x - of_int \<lfloor>x\<rfloor>) \<le> 1 / 2) = (x - of_int \<lfloor>x\<rfloor> \<le> 1 / 2 + 1 / 2 ^ 54)
   \<and> roundDistance (JNum (Fin 3.5)) = Fin 3
   \<and> roundDistance (JNum (Fin 3.50001)) = Fin 4
   \<and> roundDistance (JNum (Fin (- 1.3))) = Fin (- 1)
   \<and> roundDistance (JNum (Fin (- (1 / 2 - 1 / 2 ^ 54)))) = Fin (- 1)"
proof -
  have y: "0 \<le> x - of_int \<lfloor>x\<rfloor>" "x - of_int \<lfloor>x\<rfloor> < 1"
    by linarith+
  have f: "\<lfloor>- (1 / 2 - 1 / 2 ^ 54) :: real\<rfloor> = - 1"
    by (rule floor_unique) simp_all
  have b: "roundDistance (JNum (Fin (- (1 / 2 - 1 / 2 ^ 54)))) = Fin (- 1)"
    unfolding roundDistance_Fin f by simp
  have g: "roundDistance (JNum (Fin x)) =
     (if fl (x - of_int \<lfloor>x\<rfloor>) \<le> 1 / 2 then Fin (of_int \<lfloor>x\<rfloor>) else Fin (of_int \<lceil>x\<rceil>))"
    unfolding roundDistance_Fin_fl by simp
  have e: "roundDistance (JNum (Fin 3.5)) = Fin 3" "roundDistance (JNum (Fin 3.50001)) = Fin 4"
    "roundDistance (JNum (Fin (- 1.3))) = Fin (- 1)"
    by (simp_all add: roundDistance_Fin)
  from g fl_fraction(3) [OF y] e b show ?thesis
    by (intro conjI)
qed

theorem roundDistance_double_midpoint_down_witness:
  "roundDistance (JNum (Fin 2.5)) = Fin 2 \<and> roundDistance (JNum (Fin 2.75)) = Fin 3"
  using roundDistance_double_midpoint_down [of "2.5"] roundDistance_double_midpoint_down [of "2.75"]
  by simp

theorem roundDistance_real_rule_counterexample:
  "roundDistance (JNum (Fin (- (1 / 2 - 1 / 2 ^ 54)))) = Fin (- 1)
   \<and> \<lfloor>- (1 / 2 - 1 / 2 ^ 54) :: real\<rfloor> = - 1
   \<and> \<lceil>- (1 / 2 - 1 / 2 ^ 54) :: real\<rceil> = 0
   \<and> \<not> (- (1 / 2 - 1 / 2 ^ 54) - of_int \<lfloor>- (1 / 2 - 1 / 2 ^ 54) :: real\<rfloor> \<le> (1 / 2 :: real))"
proof -
  have f: "\<lfloor>- (1 / 2 - 1 / 2 ^ 54) :: real\<rfloor> = - 1"
    by (rule floor_unique) simp_all
  have c: "\<lceil>- (1 / 2 - 1 / 2 ^ 54) :: real\<rceil> = 0"
    by (rule ceiling_unique) simp_all
  have "roundDistance (JNum (Fin (- (1 / 2 - 1 / 2 ^ 54)))) = Fin (- 1)"
    unfolding roundDistance_Fin f by simp
  with f c show ?thesis by simp
qed

text \<open>
  C6: at the end of a trip the new odometer is \<open>roundDistance userProvidedEndOdometer\<close>
  when a reading was provided, and \<open>roundDistance (currentOdometer + roundedDistance)\<close>
  otherwise, where \<open>roundedDistance\<close>, the total distance of the trip, is the chosen
  distance after \<open>roundDistance\<close>; it becomes the odometer of the user.
\<close>

theorem new_odometer_value:
  assumes "trip_end saved ud body = Inr (ud', ct)"
  shows "endOdometer ct =
           (if provided (userProvidedEndOdometer body)
            then roundDistance (userProvidedEndOdometer body)
            else roundDistance (JNum (js_add (currentOdometer ud) (totalDistance ct))))
     \<and> (\<exists>t. activeTrip ud = Some t \<and> totalDistance ct = roundDistance (fst (chooseDistance t body)))
     \<and> currentOdometer ud' = endOdometer ct"
proof -
  from assms obtain t where t: "activeTrip ud = Some t"
    by (auto elim: trip_end_InrD)
  from trip_end_fields(3) [OF assms t]
  have "endOdometer ct =
           (if provided (userProvidedEndOdometer body)
            then roundDistance (userProvidedEndOdometer body)
            else roundDistance (JNum (js_add (currentOdometer ud) (totalDistance ct))))"
    by (simp add: newEndOdometer_def)
  with t trip_end_fields(1) [OF assms t] trip_end_fields(5) [OF assms t]
  show ?thesis by blast
qed

lemma trip_end_gps5:
  "trip_end True sydney_user (melbourne_body\<lparr>gpsDistance := JNum (Fin 5.6)\<rparr>) =
     Inr (\<lparr>currentOdometer = Fin 106, activeTrip = None\<rparr>,
          \<lparr>purpose = ''client visit'',
           startDate = JOther True NaN,
           startOdometer = Fin 100,
           startLatitude = JNum (Fin (- 33.8688)),
           startLongitude = JNum (Fin 151.2093),
           endLatitude = JNum (Fin (- 37.8136)),
           endLongitude = JNum (Fin 144.9631),
           gpsDistanceKept = JNum (Fin 5.6),
           endOdometer = Fin 106,
           totalDistance = Fin 6,
           distanceSource = ''GPS tracking''\<rparr>)"
  by (simp add: trip_end_def sydney_user_def sydney_trip_def melbourne_body_def chooseDistance_def
      provided_def js_gt_def newEndOdometer_def roundDistance_Fin Let_def)

theorem new_odometer_value_witness:
  "trip_end True sydney_user (melbourne_body\<lparr>gpsDistance := JNum (Fin 5.6)\<rparr>) =
     Inr (\<lparr>currentOdometer = Fin 106, activeTrip = None\<rparr>,
          \<lparr>purpose = ''client visit'',
           startDate = JOther True NaN,
           startOdometer = Fin 100,
           startLatitude = JNum (Fin (- 33.8688)),
           startLongitude = JNum (Fin 151.2093),
           endLatitude = JNum (Fin (- 37.8136)),
           endLongitude = JNum (Fin 144.9631),
           gpsDistanceKept = JNum (Fin 5.6),
           endOdometer = Fin 106,
           totalDistance = Fin 6,
           distanceSource = ''GPS tracking''\<rparr>)
   \<and> Fin 106 = roundDistance (JNum (js_add (currentOdometer sydney_user) (Fin 6)))"
  using new_odometer_value [OF trip_end_gps5] trip_end_gps5
  by (simp add: melbourne_body_def provided_def)

text \<open>
  C10: for every finite number \<open>x\<close>, \<open>roundDistance x\<close> is a whole number and
  \<open>roundDistance\<close> is idempotent on it; the total distance of every finalized trip is
  a whole number of kilometres, unless the chosen distance is one of the two infinities,
  which then is the total distance.
\<close>

theorem roundDistance_whole_and_idempotent:
  "is_whole (roundDistance (JNum (Fin x)))
   \<and> roundDistance (JNum (roundDistance (JNum (Fin x)))) = roundDistance (JNum (Fin x))
   \<and> (trip_end saved ud body = Inr (ud', ct) \<and> activeTrip ud = Some t \<longrightarrow>
        (if fst (chooseDistance t body) = JNum PInf then totalDistance ct = PInf
         else if fst (chooseDistance t body) = JNum NInf then totalDistance ct = NInf
         else is_whole (totalDistance ct)))"
proof -
  have w: "is_whole (roundDistance (JNum (Fin x)))"
    by (rule roundDistance_whole) simp_all
  have "totalDistance ct = roundDistance (fst (chooseDistance t body))"
    if "trip_end saved ud body = Inr (ud', ct)" "activeTrip ud = Some t"
    using trip_end_fields(1) [OF that] .
  with w roundDistance_of_whole [OF w] show ?thesis
    by (simp add: roundDistance_infinite roundDistance_whole)
qed

theorem roundDistance_whole_and_idempotent_witness:
  "activeTrip sydney_user = Some sydney_trip
   \<and> trip_end True sydney_user (melbourne_body\<lparr>gpsDistance := JNum (Fin 5.6)\<rparr>) =
     Inr (\<lparr>currentOdometer = Fin 106, activeTrip = None\<rparr>,
          \<lparr>purpose = ''client visit'',
           startDate = JOther True NaN,
           startOdometer = Fin 100,
           startLatitude = JNum (Fin (- 33.8688)),
           startLongitude = JNum (Fin 151.2093),
           endLatitude = JNum (Fin (- 37.8136)),
           endLongitude = JNum (Fin 144.9631),
           gpsDistanceKept = JNum (Fin 5.6),
           endOdometer = Fin 106,
           totalDistance = Fin 6,
           distanceSource = ''GPS tracking''\<rparr>)
   \<and> fst (chooseDistance sydney_trip (melbourne_body\<lparr>gpsDistance := JNum (Fin 5.6)\<rparr>))
       = JNum (Fin 5.6)
   \<and> is_whole (roundDistance (JNum (Fin 5.6)))
   \<and> roundDistance (JNum (roundDistance (JNum (Fin 5.6)))) = Fin 6
   \<and> is_whole (Fin 6)"
proof -
  have a: "activeTrip sydney_user = Some sydney_trip"
    by (simp add: sydney_user_def)
  have c: "fst (chooseDistance sydney_trip (melbourne_body\<lparr>gpsDistance := JNum (Fin 5.6)\<rparr>))
       = JNum (Fin 5.6)"
    by (simp add: chooseDistance_def melbourne_body_def provided_def js_gt_def)
  from roundDistance_whole_and_idempotent [where x = "5.6" and saved = True and ud = sydney_user
      and body = "melbourne_body\<lparr>gpsDistance := JNum (Fin 5.6)\<rparr>" and t = sydney_trip, unfolded c]
    trip_end_gps5 a c
  show ?thesis by (simp add: roundDistance_Fin)
qed

theorem infinite_total_distance_counterexample:
  "trip_end True sydney_user (melbourne_body\<lparr>gpsDistance := JNum PInf\<rparr>) =
     Inr (\<lparr>currentOdometer = PInf, activeTrip = None\<rparr>,
          \<lparr>purpose = ''client visit'',
           startDate = JOther True NaN,
           startOdometer = Fin 100,
           startLatitude = JNum (Fin (- 33.8688)),
           startLongitude = JNum (Fin 151.2093),
           endLatitude = JNum (Fin (- 37.8136)),
           endLongitude = JNum (Fin 144.9631),
           gpsDistanceKept = JNum PInf,
           endOdometer = PInf,
           totalDistance = PInf,
           distanceSource = ''GPS tracking''\<rparr>)
   \<and> \<not> is_whole PInf"
  by (simp add: trip_end_def sydney_user_def sydney_trip_def melbourne_body_def chooseDistance_def
      provided_def js_gt_def newEndOdometer_def roundDistance_infinite Let_def)

subsection \<open>The finalized trip\<close>

text \<open>
  C7: every trip finalized without a reading of the user has a total distance that is
  not negative and an end odometer equal to \<open>roundDistance (currentOdometer + totalDistance)\<close>;
  this is \<open>startOdometer + totalDistance\<close> when the odometer of the user is still the
  start odometer of the trip and is a whole number, as it is when the trip ends on the
  record that its start produced from a whole odometer.
\<close>

theorem finalized_trip_invariant:
  assumes "trip_end saved ud body = Inr (ud', ct)"
    and "\<not> provided (userProvidedEndOdometer body)"
  shows "js_le (Fin 0) (totalDistance ct)
     \<and> endOdometer ct = roundDistance (JNum (js_add (currentOdometer ud) (totalDistance ct)))
     \<and> (currentOdometer ud = startOdometer ct \<and> is_whole (startOdometer ct)
          \<longrightarrow> endOdometer ct = js_add (startOdometer ct) (totalDistance ct))
     \<and> (trip_start ud0 p d la lo = Inr ud \<and> is_whole (currentOdometer ud0)
          \<longrightarrow> endOdometer ct = js_add (startOdometer ct) (totalDistance ct))"
proof -
  from assms(1) obtain t where t: "activeTrip ud = Some t"
    by (auto elim: trip_end_InrD)
  note f = trip_end_fields [OF assms(1) t]
  let ?g = "gpsDistance body"
  have total: "totalDistance ct = roundDistance (fst (chooseDistance t body))"
    by (rule f(1))
  have nonneg: "js_le (Fin 0) (totalDistance ct)"
  proof (cases "truthy ?g \<and> js_gt (to_number ?g) (Fin (1 / 100))")
    case True
    with assms(2) have c: "fst (chooseDistance t body) = ?g"
      by (simp add: chooseDistance_def)
    show ?thesis
    proof (cases ?g)
      case (JNum n)
      with True have "nonneg_or_NaN n \<or> n = PInf"
        by (cases n) (simp_all add: js_gt_def)
      then show ?thesis
        unfolding total c JNum by (rule roundDistance_nonneg)
    qed (simp_all add: total c roundDistance_zero)
  next
    case False
    with assms(2) have "fst (chooseDistance t body) =
        JNum (calculateDistance (startLatitude t) (startLongitude t) (latitude body) (longitude body))"
      by (auto simp: chooseDistance_def)
    then show ?thesis
      unfolding total by (simp add: roundDistance_nonneg calculateDistance_nonneg)
  qed
  have e: "endOdometer ct = roundDistance (JNum (js_add (currentOdometer ud) (totalDistance ct)))"
    using f(3) assms(2) by (simp add: newEndOdometer_def)
  have whole: "is_whole (totalDistance ct) \<or> totalDistance ct = PInf"
  proof (cases "fst (chooseDistance t body) = JNum PInf \<or> fst (chooseDistance t body) = JNum NInf")
    case True
    with nonneg show ?thesis
      by (auto simp: total roundDistance_infinite)
  next
    case False
    then show ?thesis
      by (simp add: total roundDistance_whole)
  qed
  have sum: "endOdometer ct = js_add (startOdometer ct) (totalDistance ct)"
    if "currentOdometer ud = startOdometer ct" "is_whole (startOdometer ct)"
  proof -
    from that(2) whole have "is_whole (js_add (startOdometer ct) (totalDistance ct))
        \<or> js_add (startOdometer ct) (totalDistance ct) = PInf"
      using is_whole_add [of "startOdometer ct" "totalDistance ct"]
      by (cases "startOdometer ct") auto
    then have "roundDistance (JNum (js_add (startOdometer ct) (totalDistance ct)))
        = js_add (startOdometer ct) (totalDistance ct)"
      by (auto simp: roundDistance_of_whole roundDistance_infinite)
    with e that(1) show ?thesis by simp
  qed
  have run: "endOdometer ct = js_add (startOdometer ct) (totalDistance ct)"
    if s: "trip_start ud0 p d la lo = Inr ud" and w: "is_whole (currentOdometer ud0)"
  proof -
    from trip_start_InrD [OF s] t f(4)
    have "currentOdometer ud = startOdometer ct" "startOdometer ct = currentOdometer ud0"
      by auto
    with w show ?thesis by (simp add: sum)
  qed
  from nonneg e sum run show ?thesis by blast
qed

lemma update_odometer_fraction:
  "update_odometer new_user (Fin 100.7) = Inr \<lparr>currentOdometer = Fin 100.7, activeTrip = None\<rparr>"
  by (simp add: update_odometer_def new_user_def)

lemma trip_start_fraction:
  "trip_start \<lparr>currentOdometer = Fin 100.7, activeTrip = None\<rparr> ''client visit''
      (JOther True NaN) (JNum (Fin (- 33.8688))) (JNum (Fin 151.2093))
     = Inr \<lparr>currentOdometer = Fin 100.7,
            activeTrip = Some (sydney_trip\<lparr>startOdometer := Fin 100.7\<rparr>)\<rparr>"
  by (simp add: trip_start_def sydney_trip_def)

lemma trip_end_fraction:
  "trip_end True \<lparr>currentOdometer = Fin 100.7,
             activeTrip = Some (sydney_trip\<lparr>startOdometer := Fin 100.7\<rparr>)\<rparr>
      (melbourne_body\<lparr>gpsDistance := JNum (Fin 5)\<rparr>)
     = Inr (\<lparr>currentOdometer = Fin 106, activeTrip = None\<rparr>,
            \<lparr>purpose = ''client visit'',
             startDate = JOther True NaN,
             startOdometer = Fin 100.7,
             startLatitude = JNum (Fin (- 33.8688)),
             startLongitude = JNum (Fin 151.2093),
             endLatitude = JNum (Fin (- 37.8136)),
             endLongitude = JNum (Fin 144.9631),
             gpsDistanceKept = JNum (Fin 5),
             endOdometer = Fin 106,
             totalDistance = Fin 5,
             distanceSource = ''GPS tracking''\<rparr>)"
  by (simp add: trip_end_def sydney_trip_def melbourne_body_def chooseDistance_def
      provided_def js_gt_def newEndOdometer_def roundDistance_Fin Let_def)

lemma trip_start_whole:
  "trip_start \<lparr>currentOdometer = Fin 100, activeTrip = None\<rparr> ''client visit''
      (JOther True NaN) (JNum (Fin (- 33.8688))) (JNum (Fin 151.2093))
     = Inr sydney_user"
  by (simp add: trip_start_def sydney_user_def sydney_trip_def)

theorem finalized_trip_invariant_witness:
  "trip_start \<lparr>currentOdometer = Fin 100, activeTrip = None\<rparr> ''client visit''
      (JOther True NaN) (JNum (Fin (- 33.8688))) (JNum (Fin 151.2093))
     = Inr sydney_user
   \<and> is_whole (Fin 100)
   \<and> \<not> provided (userProvidedEndOdometer (melbourne_body\<lparr>gpsDistance := JNum (Fin 5.6)\<rparr>))
   \<and> trip_end True sydney_user (melbourne_body\<lparr>gpsDistance := JNum (Fin 5.6)\<rparr>) =
     Inr (\<lparr>currentOdometer = Fin 106, activeTrip = None\<rparr>,
          \<lparr>purpose = ''client visit'',
           startDate = JOther True NaN,
           startOdometer = Fin 100,
           startLatitude = JNum (Fin (- 33.8688)),
           startLongitude = JNum (Fin 151.2093),
           endLatitude = JNum (Fin (- 37.8136)),
           endLongitude = JNum (Fin 144.9631),
           gpsDistanceKept = JNum (Fin 5.6),
           endOdometer = Fin 106,
           totalDistance = Fin 6,
           distanceSource = ''GPS tracking''\<rparr>)
   \<and> js_le (Fin 0) (Fin 6)
   \<and> Fin 106 = js_add (Fin 100) (Fin 6)"
proof -
  have p: "\<not> provided (userProvidedEndOdometer (melbourne_body\<lparr>gpsDistance := JNum (Fin 5.6)\<rparr>))"
    by (simp add: melbourne_body_def provided_def)
  from finalized_trip_invariant [OF trip_end_gps5 p,
      of "\<lparr>currentOdometer = Fin 100, activeTrip = None\<rparr>" "''client visit''" "JOther True NaN"
         "JNum (Fin (- 33.8688))" "JNum (Fin 151.2093)"]
    trip_start_whole trip_end_gps5 p
  show ?thesis by simp
qed

theorem finalized_trip_counterexample:
  "update_odometer new_user (Fin 100.7) = Inr \<lparr>currentOdometer = Fin 100.7, activeTrip = None\<rparr>
   \<and> trip_start \<lparr>currentOdometer = Fin 100.7, activeTrip = None\<rparr> ''client visit''
        (JOther True NaN) (JNum (Fin (- 33.8688))) (JNum (Fin 151.2093))
      = Inr \<lparr>currentOdometer = Fin 100.7,
             activeTrip = Some (sydney_trip\<lparr>startOdometer := Fin 100.7\<rparr>)\<rparr>
   \<and> trip_end True \<lparr>currentOdometer = Fin 100.7,
               activeTrip = Some (sydney_trip\<lparr>startOdometer := Fin 100.7\<rparr>)\<rparr>
        (melbourne_body\<lparr>gpsDistance := JNum (Fin 5)\<rparr>)
      = Inr (\<lparr>currentOdometer = Fin 106, activeTrip = None\<rparr>,
            \<lparr>purpose = ''client visit'',
             startDate = JOther True NaN,
             startOdometer = Fin 100.7,
             startLatitude = JNum (Fin (- 33.8688)),
             startLongitude = JNum (Fin 151.2093),
             endLatitude = JNum (Fin (- 37.8136)),
             endLongitude = JNum (Fin 144.9631),
             gpsDistanceKept = JNum (Fin 5),
             endOdometer = Fin 106,
             totalDistance = Fin 5,
             distanceSource = ''GPS tracking''\<rparr>)
   \<and> Fin 106 \<noteq> js_add (Fin 100.7) (Fin 5)
   \<and> trip_end True sydney_user
        (melbourne_body\<lparr>userProvidedEndOdometer := JNum (Fin 90),
                        actualTravelledDistance := JNum (Fin (- 10))\<rparr>)
      = Inr (\<lparr>currentOdometer = Fin 90, activeTrip = None\<rparr>,
             \<lparr>purpose = ''client visit'',
              startDate = JOther True NaN,
              startOdometer = Fin 100,
              startLatitude = JNum (Fin (- 33.8688)),
              startLongitude = JNum (Fin 151.2093),
              endLatitude = JNum (Fin (- 37.8136)),
              endLongitude = JNum (Fin 144.9631),
              gpsDistanceKept = JNum (Fin 0),
              endOdometer = Fin 90,
              totalDistance = Fin (- 10),
              distanceSource = ''odometer reading''\<rparr>)
   \<and> \<not> js_le (Fin 0) (Fin (- 10))"
proof -
  have "trip_end True sydney_user
        (melbourne_body\<lparr>userProvidedEndOdometer := JNum (Fin 90),
                        actualTravelledDistance := JNum (Fin (- 10))\<rparr>)
      = Inr (\<lparr>currentOdometer = Fin 90, activeTrip = None\<rparr>,
             \<lparr>purpose = ''client visit'',
              startDate = JOther True NaN,
              startOdometer = Fin 100,
              startLatitude = JNum (Fin (- 33.8688)),
              startLongitude = JNum (Fin 151.2093),
              endLatitude = JNum (Fin (- 37.8136)),
              endLongitude = JNum (Fin 144.9631),
              gpsDistanceKept = JNum (Fin 0),
              endOdometer = Fin 90,
              totalDistance = Fin (- 10),
              distanceSource = ''odometer reading''\<rparr>)"
    by (simp add: trip_end_def sydney_user_def sydney_trip_def melbourne_body_def chooseDistance_def
        provided_def newEndOdometer_def roundDistance_Fin Let_def)
  with update_odometer_fraction trip_start_fraction trip_end_fraction
  show ?thesis by simp
qed

subsection \<open>No failure\<close>



subsection \<open>Symmetry of the distance\<close>



end
